theory Spec2Isabelle
  imports Complex_Main
begin

section \<open>The two-diode junction of solcore (\<open>solcore/junctions/two_diode_junction.py\<close>)\<close>

text \<open>
  Python floats and numpy's float arrays are idealised as real numbers and lists of real
  numbers: rounding, overflow, infinities and NaN are outside this development. Where
  numpy divides an array by zero it yields an infinity or NaN (with a warning) and goes
  on, evaluating the same expression; the reals have no such values, and the quotient
  the model writes there is not a number the code computes. Where plain Python floats
  are divided by zero the interpreter raises, and that is a branch of the model.

  The elementary charge \<open>q\<close> and the Boltzmann constant \<open>kb\<close> come from
  \<open>solcore.constants\<close>; they are parameters of every function that reads them.
\<close>

subsection \<open>Exceptions\<close>

datatype error =
    TypeError
  | ValueError
  | ZeroDivisionError
  | NotImplementedError
  | KeyError
  | RuntimeError string
  | RootError string  \<comment> \<open>whatever \<open>scipy.optimize.root\<close> itself raises\<close>
  | ParametersError string  \<comment> \<open>whatever \<open>JunctionBase.iv_parameters\<close> raises\<close>

subsection \<open>The parameter set\<close>

text \<open>\<open>class TwoDiodeData(NamedTuple)\<close>; \<open>jsc\<close> is \<open>Optional[float]\<close>.\<close>

record TwoDiodeData =
  t :: real
  j01 :: real
  j02 :: real
  n1 :: real
  n2 :: real
  rs :: real
  rsh :: real
  jsc :: "real option"

text \<open>\<open>TwoDiodeData()\<close>: the field defaults of the class.\<close>

definition TwoDiodeData_default :: TwoDiodeData where
  "TwoDiodeData_default =
     \<lparr>t = 297, j01 = 1 / 10 ^ 6, j02 = 0, n1 = 1, n2 = 2, rs = 0, rsh = 10 ^ 14,
      jsc = None\<rparr>"

subsection \<open>Values of the open mappings\<close>

datatype pyval = PyFloat real | PyStr string

type_synonym mapping = "string \<rightharpoonup> pyval"

text \<open>
  A \<open>Mapping\<close> is a plain dictionary or a \<open>collections.ChainMap\<close> over a list of
  mappings. \<open>ChainMap.__getitem__\<close> asks its maps in order and returns the first hit;
  a key that no map holds raises \<open>KeyError\<close>.
\<close>

datatype pymap = Dict mapping | ChainMap "pymap list"

fun getitem :: "pymap \<Rightarrow> string \<Rightarrow> error + pyval" where
  "getitem (Dict m) k = (case m k of None \<Rightarrow> Inl KeyError | Some v \<Rightarrow> Inr v)"
| "getitem (ChainMap []) k = Inl KeyError"
| "getitem (ChainMap (m # ms)) k =
     (case getitem m k of Inr v \<Rightarrow> Inr v | Inl e \<Rightarrow> getitem (ChainMap ms) k)"

subsection \<open>The explicit evaluator\<close>

text \<open>
  The expression of \<open>iv_no_rs\<close> at one voltage sample \<open>x\<close>, with the short-circuit current
  \<open>j\<close> already read from the record; numpy applies it to every element of the array.
\<close>

definition two_diode :: "real \<Rightarrow> real \<Rightarrow> TwoDiodeData \<Rightarrow> real \<Rightarrow> real \<Rightarrow> real" where
  "two_diode q kb d j x =
     j01 d * (exp (q * x / (n1 d * kb * t d)) - 1)
     + j02 d * (exp (q * x / (n2 d * kb * t d)) - 1)
     + x / rsh d
     - j"

text \<open>
  \<open>iv_no_rs(v, data)\<close>. With \<open>data.jsc\<close> left at \<open>None\<close> the last subtraction is an array
  minus \<open>None\<close>: numpy raises \<open>TypeError\<close> at the first element, and has nothing to raise
  on when the array is empty.
\<close>

definition iv_no_rs :: "real \<Rightarrow> real \<Rightarrow> real list \<Rightarrow> TwoDiodeData \<Rightarrow> error + real list" where
  "iv_no_rs q kb v d =
     (case jsc d of
        None \<Rightarrow> (if v = [] then Inr [] else Inl TypeError)
      | Some j \<Rightarrow> Inr (map (two_diode q kb d j) v))"

subsection \<open>The implicit solver\<close>

text \<open>
  What \<open>scipy.optimize.root\<close> returns (an \<open>OptimizeResult\<close>): the fields the code reads,
  and \<open>sol_str\<close> for the text that \<open>str(sol)\<close> gives, which the error message embeds.
\<close>

record sol =
  success :: bool
  sol_x :: "real list"
  sol_str :: string

text \<open>
  The root-finder is a library outside the repository: it is a parameter, taking the
  residual function, the initial guess and the keyword options, and either raising or
  returning a \<open>sol\<close> (\<open>sol_x\<close> is its field \<open>x\<close>).
\<close>

type_synonym root_finder =
  "(real list \<Rightarrow> error + real list) \<Rightarrow> real list \<Rightarrow> mapping \<Rightarrow> error + sol"

text \<open>The local function \<open>fun(j)\<close> of \<open>iv2diode\<close>: \<open>j - iv_no_rs(v - data.rs * j, data)\<close>.\<close>

definition residual_fun ::
  "real \<Rightarrow> real \<Rightarrow> real list \<Rightarrow> TwoDiodeData \<Rightarrow> real list \<Rightarrow> error + real list" where
  "residual_fun q kb v d j =
     (case iv_no_rs q kb (map2 (\<lambda>vk jk. vk - rs d * jk) v j) d of
        Inl e \<Rightarrow> Inl e
      | Inr i \<Rightarrow> Inr (map2 (\<lambda>jk ik. jk - ik) j i))"

text \<open>\<open>np.clip(a, a_min, a_max)\<close>, elementwise \<open>minimum(a_max, maximum(a, a_min))\<close>.\<close>

definition clip :: "real list \<Rightarrow> real \<Rightarrow> real \<Rightarrow> real list" where
  "clip a a_min a_max = map (\<lambda>c. min a_max (max c a_min)) a"

definition failed_msg :: "sol \<Rightarrow> string" where
  "failed_msg s =
     ''The IV calculation failed to converge. Solver info:'' @ [CHR 0x0A] @ sol_str s"

text \<open>
  \<open>iv2diode(v, data, **kwargs)\<close>. \<open>np.min\<close> and \<open>np.max\<close> raise \<open>ValueError\<close> on an empty
  array.
\<close>

definition iv2diode ::
  "real \<Rightarrow> real \<Rightarrow> root_finder \<Rightarrow> real list \<Rightarrow> TwoDiodeData \<Rightarrow> mapping \<Rightarrow> error + real list"
where
  "iv2diode q kb root_fn v d kwargs =
     (case iv_no_rs q kb v d of
        Inl e \<Rightarrow> Inl e
      | Inr current \<Rightarrow>
          if rs d = 0 then Inr current
          else if v = [] then Inl ValueError
          else
            (let jguess = clip current (Min (set v) / rs d) (Max (set v) / rs d) in
             case root_fn (residual_fun q kb v d) jguess kwargs of
               Inl e \<Rightarrow> Inl e
             | Inr s \<Rightarrow>
                 if \<not> success s then Inl (RuntimeError (failed_msg s))
                 else Inr (sol_x s)))"

subsection \<open>The junction\<close>

text \<open>\<open>class TwoDiodeJunction(JunctionBase)\<close>, a frozen dataclass.\<close>

record TwoDiodeJunction =
  data :: TwoDiodeData
  params :: "pymap option"
  options :: "mapping option"

text \<open>\<open>TwoDiodeJunction()\<close>: the field defaults of the dataclass.\<close>

definition TwoDiodeJunction_default :: TwoDiodeJunction where
  "TwoDiodeJunction_default = \<lparr>data = TwoDiodeData_default, params = None, options = None\<rparr>"

text \<open>
  Python's \<open>x ** y\<close> on floats for an exponent that is not an integer: a negative base
  gives a complex number, which no field of the record can hold. \<open>None\<close> stands for that
  outcome: neither an exception nor a real number.
\<close>

definition float_pow :: "real \<Rightarrow> real \<Rightarrow> real option" where
  "float_pow b y = (if b < 0 then None else Some (b powr y))"

text \<open>
  \<open>TwoDiodeJunction.from_reference(band_gap, t, data, params, options)\<close>; the target
  temperature \<open>t\<close> is \<open>temp\<close> here. The divisions are between Python floats and raise
  \<open>ZeroDivisionError\<close> at a zero divisor: \<open>t / data.t\<close>, \<open>.. / (data.n1 * kb)\<close>, \<open>1 / t\<close>,
  \<open>1 / data.t\<close> and \<open>.. / (data.n2 * kb)\<close>. The outer \<open>None\<close> is the complex outcome of
  \<open>float_pow\<close>.
\<close>

definition from_reference ::
  "real \<Rightarrow> real \<Rightarrow> real \<Rightarrow> real \<Rightarrow> TwoDiodeData \<Rightarrow> pymap option \<Rightarrow> mapping option
   \<Rightarrow> (error + TwoDiodeJunction) option"
where
  "from_reference q kb band_gap temp d ps opts =
     (if t d = 0 \<or> n1 d * kb = 0 \<or> temp = 0 \<or> n2 d * kb = 0
      then Some (Inl ZeroDivisionError)
      else
        (case float_pow (temp / t d) (5 / 3) of
           None \<Rightarrow> None
         | Some p \<Rightarrow>
             (let j01' = j01 d * (temp / t d) ^ 3
                          * exp (- q * band_gap / (n1 d * kb) * (1 / temp - 1 / t d));
                  j02' = j02 d * p
                          * exp (- q * band_gap / (n2 d * kb) * (1 / temp - 1 / t d));
                  parameters =
                    ChainMap
                      [Dict [''band_gap'' \<mapsto> PyFloat band_gap, ''t_ref'' \<mapsto> PyFloat (t d)],
                       (case ps of None \<Rightarrow> Dict Map.empty | Some m \<Rightarrow> m)]
              in Some (Inr \<lparr>data = d\<lparr>t := temp, j01 := j01', j02 := j02'\<rparr>,
                            params = Some parameters, options = opts\<rparr>))))"

subsection \<open>Quantum efficiency\<close>

text \<open>
  The absorption \<open>xr.DataArray\<close>, labelled by \<open>wavelength\<close> and \<open>position\<close>: the two
  coordinate arrays, and \<open>frac i k\<close> for the entry at the \<open>i\<close>-th wavelength and the
  \<open>k\<close>-th position, so that the shape always agrees with the coordinates.
\<close>

record absorption =
  wavelength :: "real list"
  position :: "real list"
  frac :: "nat \<Rightarrow> nat \<Rightarrow> real"

text \<open>
  \<open>DataArray.integrate\<close> is xarray's trapezoidal rule along the named coordinate:
  the sum of \<open>dx * 0.5 * (y[1:] + y[:-1])\<close> with \<open>dx = x[1:] - x[:-1]\<close>.
\<close>

fun trapz :: "real list \<Rightarrow> real list \<Rightarrow> real" where
  "trapz (y0 # y1 # ys) (x0 # x1 # xs) =
     (x1 - x0) * (1 / 2) * (y1 + y0) + trapz (y1 # ys) (x1 # xs)"
| "trapz ys xs = 0"

definition integrate_position :: "absorption \<Rightarrow> real list" where
  "integrate_position a =
     map (\<lambda>i. trapz (map (frac a i) [0..<length (position a)]) (position a))
       [0..<length (wavelength a)]"

text \<open>The \<open>xr.Dataset\<close> of \<open>solve_qe\<close>: two curves over the wavelength coordinate.\<close>

record qe_dataset =
  qe_wavelength :: "real list"
  eqe :: "real list"
  iqe :: "real list"

text \<open>
  The light source is a collaborator outside this file: its \<open>spectrum\<close> query gives the
  photon flux per metre at each wavelength of the array it is given. It is a parameter,
  the flux as a function of the wavelength.
\<close>

type_synonym light_source = "real \<Rightarrow> real"

text \<open>\<open>solve_qe(self, absorption, light_source)\<close>; \<open>xr.ones_like(eqe)\<close> for \<open>iqe\<close>.\<close>

definition solve_qe ::
  "TwoDiodeJunction \<Rightarrow> absorption \<Rightarrow> light_source option \<Rightarrow> qe_dataset" where
  "solve_qe jn a ls =
     (let e = integrate_position a
      in \<lparr>qe_wavelength = wavelength a, eqe = e, iqe = map (\<lambda>_. 1) e\<rparr>)"

text \<open>\<open>solve_equilibrium\<close> and \<open>solve_short_circuit\<close>: \<open>raise NotImplementedError\<close>.\<close>

definition solve_equilibrium :: "TwoDiodeJunction \<Rightarrow> error + 'a" where
  "solve_equilibrium jn = Inl NotImplementedError"

definition solve_short_circuit ::
  "TwoDiodeJunction \<Rightarrow> absorption \<Rightarrow> light_source \<Rightarrow> error + 'a" where
  "solve_short_circuit jn a ls = Inl NotImplementedError"

subsection \<open>The IV curve\<close>

text \<open>
  \<open>_get_jsc(self, absorption, light_source)\<close>. The integral over the wavelength is a
  0-dimensional array; it is read as the number it holds.
\<close>

definition get_jsc ::
  "real \<Rightarrow> TwoDiodeJunction \<Rightarrow> absorption option \<Rightarrow> light_source option \<Rightarrow> real" where
  "get_jsc q jn ab ls =
     (case (ab, ls) of
        (Some a, Some l) \<Rightarrow>
          (let sp = map l (wavelength a)
           in q * trapz (map2 (\<lambda>e s. e * s) (eqe (solve_qe jn a None)) sp) (wavelength a))
      | _ \<Rightarrow> 0)"

text \<open>
  The \<open>xr.Dataset\<close> of \<open>solve_iv\<close>: the current over the voltage coordinate, and the
  attributes (Voc, Isc, FF, Vmpp, Impp, Pmpp, eta when the curve is a light IV).
\<close>

record iv_dataset =
  voltage :: "real list"
  current :: "real list"
  attrs :: "string \<rightharpoonup> real"

text \<open>
  \<open>iv_parameters\<close> is inherited from \<open>JunctionBase\<close>, which is not in this file: it is a
  parameter, from the voltages and the currents to the attributes, or raising.
\<close>

type_synonym iv_parameters = "real list \<Rightarrow> real list \<Rightarrow> error + (string \<rightharpoonup> real)"

text \<open>
  \<open>solve_iv(self, voltage, absorption, light_source)\<close>. \<open>**self.options\<close> is expanded
  while the arguments of the call are built: with \<open>options\<close> left at \<open>None\<close> that raises
  \<open>TypeError\<close> before \<open>iv2diode\<close> is entered. \<open>xr.DataArray\<close> raises \<open>ValueError\<close> when
  the data and the coordinate differ in length.
\<close>

definition solve_iv ::
  "real \<Rightarrow> real \<Rightarrow> root_finder \<Rightarrow> iv_parameters \<Rightarrow> TwoDiodeJunction \<Rightarrow> real list
   \<Rightarrow> absorption option \<Rightarrow> light_source option \<Rightarrow> error + iv_dataset"
where
  "solve_iv q kb root_fn iv_params jn v ab ls =
     (let j = (case jsc (data jn) of Some j' \<Rightarrow> j' | None \<Rightarrow> get_jsc q jn ab ls)
      in case options jn of
           None \<Rightarrow> Inl TypeError
         | Some kwargs \<Rightarrow>
             (case iv2diode q kb root_fn v ((data jn)\<lparr>jsc := Some j\<rparr>) kwargs of
                Inl e \<Rightarrow> Inl e
              | Inr i \<Rightarrow>
                  if length i \<noteq> length v then Inl ValueError
                  else if j = 0
                  then Inr \<lparr>voltage = v, current = i, attrs = Map.empty\<rparr>
                  else
                    (case iv_params v i of
                       Inl e \<Rightarrow> Inl e
                     | Inr ps \<Rightarrow> Inr \<lparr>voltage = v, current = i, attrs = ps\<rparr>)))"

section \<open>Properties\<close>

subsection \<open>The solver\<close>

lemma iv_no_rs_Some:
  "jsc d = Some j \<Longrightarrow> iv_no_rs q kb v d = Inr (map (two_diode q kb d j) v)"
  by (simp add: iv_no_rs_def)

lemma iv_no_rs_None:
  "jsc d = None \<Longrightarrow> v \<noteq> [] \<Longrightarrow> iv_no_rs q kb v d = Inl TypeError"
  by (simp add: iv_no_rs_def)

text \<open>
  With a series resistance, a short-circuit current and at least one voltage the
  root-finder is reached, and a solution it reports as converged is returned as it is.
\<close>

lemma iv2diode_converged:
  assumes "rs d \<noteq> 0" and "jsc d = Some j" and "v \<noteq> []"
    and "root_fn (residual_fun q kb v d)
           (clip (map (two_diode q kb d j) v) (Min (set v) / rs d) (Max (set v) / rs d))
           kwargs = Inr s"
    and "success s"
  shows "iv2diode q kb root_fn v d kwargs = Inr (sol_x s)"
  using assms by (simp add: iv2diode_def iv_no_rs_def)

text \<open>
  C1. With \<open>rs = 0\<close> and \<open>jsc\<close> a number, \<open>iv2diode\<close> returns what \<open>iv_no_rs\<close> returns,
  whatever the root-finder is (it is not called): an array as long as \<open>v\<close> whose \<open>k\<close>-th
  element is the two-diode expression at \<open>v[k]\<close>.
\<close>

theorem iv2diode_rs_zero:
  assumes "rs d = 0" and "jsc d = Some j"
  shows "iv2diode q kb root_fn v d kwargs = iv_no_rs q kb v d \<and>
    (\<exists>c. iv2diode q kb root_fn v d kwargs = Inr c \<and> length c = length v \<and>
       (\<forall>k < length v. c ! k =
          j01 d * (exp (q * (v ! k) / (n1 d * kb * t d)) - 1)
          + j02 d * (exp (q * (v ! k) / (n2 d * kb * t d)) - 1)
          + v ! k / rsh d - j))"
  using assms by (simp add: iv2diode_def iv_no_rs_def two_diode_def)

theorem iv2diode_rs_zero_witness:
  "rs (TwoDiodeData_default\<lparr>jsc := Some (3 / 100)\<rparr>) = 0 \<and>
   jsc (TwoDiodeData_default\<lparr>jsc := Some (3 / 100)\<rparr>) = Some (3 / 100) \<and>
   iv2diode (1602176634 / 10 ^ 28) (1380649 / 10 ^ 29) (\<lambda>f g k. Inl (RootError [])) [0, 1 / 2]
     (TwoDiodeData_default\<lparr>jsc := Some (3 / 100)\<rparr>) Map.empty
   = iv_no_rs (1602176634 / 10 ^ 28) (1380649 / 10 ^ 29) [0, 1 / 2]
     (TwoDiodeData_default\<lparr>jsc := Some (3 / 100)\<rparr>)"
  using iv2diode_rs_zero [of "TwoDiodeData_default\<lparr>jsc := Some (3 / 100)\<rparr>" "3 / 100"
      "1602176634 / 10 ^ 28" "1380649 / 10 ^ 29" "\<lambda>f g k. Inl (RootError [])" "[0, 1 / 2]" Map.empty]
  by (simp add: TwoDiodeData_default_def)

text \<open>
  C3. With \<open>rs \<noteq> 0\<close>, when the root-finder is called (the short-circuit current is a
  number and there is a voltage) and its result has the success flag false, \<open>iv2diode\<close>
  raises \<open>RuntimeError\<close> with a message that ends in the text of the solver's result, and
  returns no array.
\<close>

theorem iv2diode_not_converged:
  assumes "rs d \<noteq> 0" and "jsc d = Some j" and "v \<noteq> []"
    and "root_fn (residual_fun q kb v d)
           (clip (map (two_diode q kb d j) v) (Min (set v) / rs d) (Max (set v) / rs d))
           kwargs = Inr s"
    and "\<not> success s"
  shows "iv2diode q kb root_fn v d kwargs =
           Inl (RuntimeError
             (''The IV calculation failed to converge. Solver info:'' @ [CHR 0x0A] @ sol_str s))
         \<and> (\<nexists>c. iv2diode q kb root_fn v d kwargs = Inr c)"
  using assms by (simp add: iv2diode_def iv_no_rs_def failed_msg_def)

theorem iv2diode_not_converged_witness:
  "rs (TwoDiodeData_default\<lparr>rs := 1, jsc := Some 0\<rparr>) \<noteq> 0 \<and>
   jsc (TwoDiodeData_default\<lparr>rs := 1, jsc := Some 0\<rparr>) = Some 0 \<and>
   iv2diode 1 1 (\<lambda>f g k. Inr \<lparr>success = False, sol_x = g, sol_str = ''status: 5''\<rparr>) [0, 1]
     (TwoDiodeData_default\<lparr>rs := 1, jsc := Some 0\<rparr>) Map.empty =
   Inl (RuntimeError
     (''The IV calculation failed to converge. Solver info:'' @ [CHR 0x0A] @ ''status: 5''))"
  using iv2diode_not_converged [of "TwoDiodeData_default\<lparr>rs := 1, jsc := Some 0\<rparr>" 0 "[0, 1]"
      "\<lambda>f g k. Inr \<lparr>success = False, sol_x = g, sol_str = ''status: 5''\<rparr>" 1 1 Map.empty
      "\<lparr>success = False,
        sol_x = clip (map (two_diode 1 1 (TwoDiodeData_default\<lparr>rs := 1, jsc := Some 0\<rparr>) 0) [0, 1])
                  (Min (set [0, 1]) / 1) (Max (set [0, 1]) / 1),
        sol_str = ''status: 5''\<rparr>"]
  by (simp add: TwoDiodeData_default_def)

subsection \<open>The IV curve of the junction\<close>

text \<open>
  C4. On a junction whose data has no \<open>jsc\<close>, with the absorption or the light source
  absent, the short-circuit current is resolved to zero: \<open>_get_jsc\<close> gives 0, and every
  dataset \<open>solve_iv\<close> returns holds the current that \<open>iv2diode\<close> computes with \<open>jsc = 0\<close>
  and has no attributes at all (so none of Voc, Isc, FF, Vmpp, Impp, Pmpp, eta).
\<close>

theorem solve_iv_dark:
  assumes "jsc (data jn) = None" and "ab = None \<or> ls = None"
  shows "get_jsc q jn ab ls = 0 \<and>
    (\<forall>ds. solve_iv q kb root_fn iv_params jn v ab ls = Inr ds \<longrightarrow>
       attrs ds = Map.empty \<and> voltage ds = v \<and>
       (\<exists>kwargs. options jn = Some kwargs \<and>
          iv2diode q kb root_fn v ((data jn)\<lparr>jsc := Some 0\<rparr>) kwargs = Inr (current ds)))"
proof -
  have z: "get_jsc q jn ab ls = 0"
    using assms(2) by (auto simp: get_jsc_def split: option.splits)
  show ?thesis
    using assms(1) z
    by (auto simp: solve_iv_def split: option.splits sum.splits if_splits)
qed

theorem solve_iv_dark_witness:
  "jsc (data (TwoDiodeJunction_default\<lparr>options := Some Map.empty\<rparr>)) = None \<and>
   get_jsc 1 (TwoDiodeJunction_default\<lparr>options := Some Map.empty\<rparr>) None None = 0 \<and>
   solve_iv 1 1 (\<lambda>f g k. Inl (RootError [])) (\<lambda>vs is. Inl (ParametersError []))
     (TwoDiodeJunction_default\<lparr>options := Some Map.empty\<rparr>) [0] None None
     = Inr \<lparr>voltage = [0], current = [0], attrs = Map.empty\<rparr>"
  using solve_iv_dark [of "TwoDiodeJunction_default\<lparr>options := Some Map.empty\<rparr>" None None 1 1
      "\<lambda>f g k. Inl (RootError [])" "\<lambda>vs is. Inl (ParametersError [])" "[0]"]
  by (simp add: TwoDiodeJunction_default_def TwoDiodeData_default_def solve_iv_def
      iv2diode_def iv_no_rs_def two_diode_def get_jsc_def)

text \<open>
  C10. On a junction whose \<open>options\<close> is \<open>None\<close>, \<open>solve_iv\<close> raises \<open>TypeError\<close> whatever
  the other arguments and the series resistance are; a dataset is returned only when
  \<open>options\<close> is a mapping.
\<close>

theorem solve_iv_options_None:
  "(options jn = None \<longrightarrow> solve_iv q kb root_fn iv_params jn v ab ls = Inl TypeError) \<and>
   (\<forall>ds. solve_iv q kb root_fn iv_params jn v ab ls = Inr ds \<longrightarrow>
      (\<exists>kwargs. options jn = Some kwargs))"
  by (auto simp: solve_iv_def Let_def split: option.splits)

theorem solve_iv_options_None_witness:
  "options TwoDiodeJunction_default = None \<and> rs (data TwoDiodeJunction_default) = 0 \<and>
   solve_iv 1 1 (\<lambda>f g k. Inl (RootError [])) (\<lambda>vs is. Inl (ParametersError []))
     TwoDiodeJunction_default [0] None None = Inl TypeError"
  using solve_iv_options_None [of TwoDiodeJunction_default 1 1 "\<lambda>f g k. Inl (RootError [])"
      "\<lambda>vs is. Inl (ParametersError [])" "[0]" None None]
  by (simp add: TwoDiodeJunction_default_def TwoDiodeData_default_def)

subsection \<open>Temperature extrapolation\<close>

text \<open>
  C5. At the reference temperature (\<open>t = data.t\<close>) every junction that \<open>from_reference\<close>
  returns has the \<open>j01\<close> and \<open>j02\<close> of the reference; and it does return one whenever the
  temperature and the products \<open>n1 * kb\<close> and \<open>n2 * kb\<close> are not zero.
\<close>

theorem from_reference_identity:
  "(\<forall>jn. from_reference q kb band_gap (t d) d ps opts = Some (Inr jn) \<longrightarrow>
      j01 (data jn) = j01 d \<and> j02 (data jn) = j02 d) \<and>
   (t d \<noteq> 0 \<and> n1 d * kb \<noteq> 0 \<and> n2 d * kb \<noteq> 0 \<longrightarrow>
      (\<exists>jn. from_reference q kb band_gap (t d) d ps opts = Some (Inr jn)))"
  by (auto simp: from_reference_def float_pow_def Let_def split: if_splits)

theorem from_reference_identity_witness:
  "\<exists>jn. from_reference (1602176634 / 10 ^ 28) (1380649 / 10 ^ 29) (142 / 100) 297
      TwoDiodeData_default None None = Some (Inr jn) \<and>
      j01 (data jn) = 1 / 10 ^ 6 \<and> j02 (data jn) = 0"
  using from_reference_identity [of "1602176634 / 10 ^ 28" "1380649 / 10 ^ 29" "142 / 100"
      TwoDiodeData_default None None]
  by (auto simp: TwoDiodeData_default_def)

text \<open>
  C6. The data of a junction that \<open>from_reference\<close> returns is the reference data with
  \<open>t\<close>, \<open>j01\<close> and \<open>j02\<close> replaced: \<open>n1\<close>, \<open>n2\<close>, \<open>rs\<close>, \<open>rsh\<close> and \<open>jsc\<close> are those of the
  reference, and \<open>t\<close> is the target temperature.
\<close>

theorem from_reference_frame:
  assumes "from_reference q kb band_gap temp d ps opts = Some (Inr jn)"
  shows "n1 (data jn) = n1 d \<and> n2 (data jn) = n2 d \<and> rs (data jn) = rs d \<and>
         rsh (data jn) = rsh d \<and> jsc (data jn) = jsc d \<and> t (data jn) = temp \<and>
         data jn = d\<lparr>t := temp, j01 := j01 (data jn), j02 := j02 (data jn)\<rparr>"
  using assms
  by (auto simp: from_reference_def float_pow_def Let_def split: if_splits)

theorem from_reference_frame_witness:
  "\<exists>jn. from_reference (1602176634 / 10 ^ 28) (1380649 / 10 ^ 29) (142 / 100) 300
      TwoDiodeData_default None None = Some (Inr jn) \<and>
      n1 (data jn) = 1 \<and> n2 (data jn) = 2 \<and> rs (data jn) = 0 \<and> rsh (data jn) = 10 ^ 14 \<and>
      jsc (data jn) = None \<and> t (data jn) = 300"
  using from_reference_frame [of "1602176634 / 10 ^ 28" "1380649 / 10 ^ 29" "142 / 100" 300
      TwoDiodeData_default None None]
  by (auto simp: from_reference_def float_pow_def Let_def TwoDiodeData_default_def)

subsection \<open>The metadata of a derived junction\<close>

lemma getitem_Inl: "getitem m k = Inl e \<Longrightarrow> e = KeyError"
  by (induction m k rule: getitem.induct) (auto split: option.splits sum.splits)

lemma getitem_pair:
  "getitem (ChainMap [Dict m1, m2]) k =
     (case m1 k of Some v \<Rightarrow> Inr v | None \<Rightarrow> getitem m2 k)"
proof (cases "m1 k")
  case None
  show ?thesis
  proof (cases "getitem m2 k")
    case (Inl e)
    with None getitem_Inl [OF Inl] show ?thesis by simp
  next
    case (Inr v)
    with None show ?thesis by simp
  qed
next
  case (Some v)
  then show ?thesis by simp
qed

lemma from_reference_params:
  assumes "from_reference q kb band_gap temp d ps opts = Some (Inr jn)"
  shows "params jn =
     Some (ChainMap [Dict [''band_gap'' \<mapsto> PyFloat band_gap, ''t_ref'' \<mapsto> PyFloat (t d)],
                     (case ps of None \<Rightarrow> Dict Map.empty | Some m \<Rightarrow> m)])"
  using assms
  by (auto simp: from_reference_def float_pow_def Let_def split: if_splits option.splits)

text \<open>
  The caller's mapping is the second map of the \<open>ChainMap\<close>, behind the dictionary of the
  two derived keys, and the first hit wins. A caller who supplies \<open>band_gap = 2\<close> in
  \<open>params\<close> while the band gap argument is 1 finds 1 under \<open>band_gap\<close> in the junction.
\<close>

theorem from_reference_caller_keys_counterexample:
  "from_reference 1 1 1 297 TwoDiodeData_default (Some (Dict [''band_gap'' \<mapsto> PyFloat 2])) None =
     Some (Inr \<lparr>data = TwoDiodeData_default,
                params = Some (ChainMap [Dict [''band_gap'' \<mapsto> PyFloat 1, ''t_ref'' \<mapsto> PyFloat 297],
                                         Dict [''band_gap'' \<mapsto> PyFloat 2]]),
                options = None\<rparr>) \<and>
   getitem (Dict [''band_gap'' \<mapsto> PyFloat 2]) ''band_gap'' = Inr (PyFloat 2) \<and>
   getitem (ChainMap [Dict [''band_gap'' \<mapsto> PyFloat 1, ''t_ref'' \<mapsto> PyFloat 297],
                      Dict [''band_gap'' \<mapsto> PyFloat 2]]) ''band_gap'' = Inr (PyFloat 1) \<and>
   getitem (ChainMap [Dict [''band_gap'' \<mapsto> PyFloat 1, ''t_ref'' \<mapsto> PyFloat 297],
                      Dict [''band_gap'' \<mapsto> PyFloat 2]]) ''band_gap''
     \<noteq> getitem (Dict [''band_gap'' \<mapsto> PyFloat 2]) ''band_gap''"
proof -
  have a: "from_reference 1 1 1 297 TwoDiodeData_default (Some (Dict [''band_gap'' \<mapsto> PyFloat 2])) None =
     Some (Inr \<lparr>data = TwoDiodeData_default,
                params = Some (ChainMap [Dict [''band_gap'' \<mapsto> PyFloat 1, ''t_ref'' \<mapsto> PyFloat 297],
                                         Dict [''band_gap'' \<mapsto> PyFloat 2]]),
                options = None\<rparr>)"
    by (simp add: from_reference_def float_pow_def Let_def TwoDiodeData_default_def)
  have b: "getitem (Dict [''band_gap'' \<mapsto> PyFloat 2]) ''band_gap'' = Inr (PyFloat 2)"
    by simp
  have c: "getitem (ChainMap [Dict [''band_gap'' \<mapsto> PyFloat 1, ''t_ref'' \<mapsto> PyFloat 297],
                      Dict [''band_gap'' \<mapsto> PyFloat 2]]) ''band_gap'' = Inr (PyFloat 1)"
    by simp
  show ?thesis unfolding c b using a by simp
qed

text \<open>
  C7, as the code has it. In the metadata of a junction that \<open>from_reference\<close> returns,
  \<open>band_gap\<close> resolves to the band gap argument and \<open>t_ref\<close> to the reference temperature
  \<open>data.t\<close>, whatever the caller's mapping holds under these two keys; every other key
  resolves as in the caller's mapping (\<open>KeyError\<close> when there is none).
\<close>

theorem from_reference_metadata:
  assumes "from_reference q kb band_gap temp d ps opts = Some (Inr jn)"
  shows "\<exists>P. params jn = Some P \<and>
           getitem P ''band_gap'' = Inr (PyFloat band_gap) \<and>
           getitem P ''t_ref'' = Inr (PyFloat (t d)) \<and>
           (\<forall>k. k \<noteq> ''band_gap'' \<and> k \<noteq> ''t_ref'' \<longrightarrow>
              getitem P k = (case ps of None \<Rightarrow> Inl KeyError | Some m \<Rightarrow> getitem m k))"
proof -
  let ?D = "[''band_gap'' \<mapsto> PyFloat band_gap, ''t_ref'' \<mapsto> PyFloat (t d)]"
  let ?m = "case ps of None \<Rightarrow> Dict Map.empty | Some m \<Rightarrow> m"
  have P: "params jn = Some (ChainMap [Dict ?D, ?m])"
    using from_reference_params [OF assms] .
  have bg: "getitem (ChainMap [Dict ?D, ?m]) ''band_gap'' = Inr (PyFloat band_gap)"
    unfolding getitem_pair by simp
  have tr: "getitem (ChainMap [Dict ?D, ?m]) ''t_ref'' = Inr (PyFloat (t d))"
    unfolding getitem_pair by simp
  have other: "getitem (ChainMap [Dict ?D, ?m]) k =
      (case ps of None \<Rightarrow> Inl KeyError | Some m \<Rightarrow> getitem m k)"
    if "k \<noteq> ''band_gap'' \<and> k \<noteq> ''t_ref''" for k
  proof -
    have "?D k = None" using that by simp
    then have "getitem (ChainMap [Dict ?D, ?m]) k = getitem ?m k"
      unfolding getitem_pair by simp
    then show ?thesis by (simp split: option.splits)
  qed
  show ?thesis using P bg tr other by blast
qed

theorem from_reference_metadata_witness:
  "\<exists>jn P. from_reference 1 1 1 300 TwoDiodeData_default
       (Some (Dict [''band_gap'' \<mapsto> PyFloat 2, ''material'' \<mapsto> PyStr ''GaAs''])) None = Some (Inr jn) \<and>
     params jn = Some P \<and>
     getitem P ''band_gap'' = Inr (PyFloat 1) \<and>
     getitem P ''t_ref'' = Inr (PyFloat 297) \<and>
     getitem P ''material'' = Inr (PyStr ''GaAs'')"
proof -
  let ?ps = "Some (Dict [''band_gap'' \<mapsto> PyFloat 2, ''material'' \<mapsto> PyStr ''GaAs''])"
  have "\<exists>jn. from_reference 1 1 1 300 TwoDiodeData_default ?ps None = Some (Inr jn)"
    by (simp add: from_reference_def float_pow_def Let_def TwoDiodeData_default_def)
  then obtain jn where jn:
    "from_reference 1 1 1 300 TwoDiodeData_default ?ps None = Some (Inr jn)" ..
  from from_reference_metadata [OF jn] obtain P where P: "params jn = Some P"
    and bg: "getitem P ''band_gap'' = Inr (PyFloat 1)"
    and tr: "getitem P ''t_ref'' = Inr (PyFloat (t TwoDiodeData_default))"
    and oth: "\<forall>k. k \<noteq> ''band_gap'' \<and> k \<noteq> ''t_ref'' \<longrightarrow>
      getitem P k = (case ?ps of None \<Rightarrow> Inl KeyError | Some m \<Rightarrow> getitem m k)"
    by blast
  have mat: "getitem P ''material'' = Inr (PyStr ''GaAs'')"
    using oth [rule_format, of "''material''"] by simp
  have "t TwoDiodeData_default = 297" by (simp add: TwoDiodeData_default_def)
  with jn P bg tr mat show ?thesis by metis
qed

subsection \<open>Quantum efficiency and the unsupported solves\<close>







text \<open>
  C9. \<open>solve_equilibrium\<close> and \<open>solve_short_circuit\<close> raise \<open>NotImplementedError\<close> on every
  junction and every argument, and return no result.
\<close>

theorem unsupported_solves:
  "solve_equilibrium jn = Inl NotImplementedError \<and>
   solve_short_circuit jn a ls = Inl NotImplementedError \<and>
   (\<nexists>r. solve_equilibrium jn = Inr r) \<and> (\<nexists>r. solve_short_circuit jn a ls = Inr r)"
  by (simp add: solve_equilibrium_def solve_short_circuit_def)

end
